theory Spec2Isabelle
  imports Complex_Main "HOL-Library.Word"
begin

unbundle bit_operations_syntax

section \<open>The public interface of chromaprint (src/chromaprint.cpp)\<close>

text \<open>
  The file embedded here is the C interface of the library: the fingerprinter session
  (\<open>ChromaprintContextPrivate\<close>), the stand-alone codec entry points and the matcher session
  (\<open>ChromaprintMatcherContextPrivate\<close>). The classes it calls (\<open>Fingerprinter\<close>,
  \<open>FingerprintMatcher\<close>) and the helpers of the headers \<open>fingerprint_compressor.h\<close>,
  \<open>fingerprint_decompressor.h\<close>, \<open>base64.h\<close> and \<open>simhash.h\<close> are not part of that file.
  The two classes are parameters of the session functions; the helpers are modelled from the
  specification, each under a comment that says so.

  Conventions. A C \<open>int\<close> is a HOL \<open>int\<close>: no function of the file does arithmetic on one,
  they are only compared and stored; a size is the length of a container, and a container
  too long for an \<open>int\<close> to hold its length is outside the model. The return value of
  every function is the C value
  (\<open>1\<close> success, \<open>0\<close> failure). An output parameter is an \<open>option\<close>: \<open>None\<close> when the
  call did not store through the pointer. A pointer that the code compares with \<open>NULL\<close> is an
  \<open>option\<close> too (\<open>None\<close> is \<open>NULL\<close>). An array argument given as a pointer is the function from
  indices to elements, of which the code reads the first \<open>size\<close>.
\<close>

type_synonym uint32_t = "32 word"
type_synonym int16_t = "16 word"

subsection \<open>The Fingerprinter, as the session functions use it\<close>

text \<open>
  The methods of \<open>chromaprint::Fingerprinter\<close> that the file calls, over a state \<open>'f\<close>:
  the constructor (from the algorithm id), \<open>SetOption\<close>, \<open>Start\<close>, \<open>Consume\<close> and
  \<open>Finish\<close>. Each takes the object's state and returns the new one beside its result.
\<close>

record 'f Fingerprinter =
  Create :: "int \<Rightarrow> 'f"
  SetOption :: "'f \<Rightarrow> string \<Rightarrow> int \<Rightarrow> bool \<times> 'f"
  Start :: "'f \<Rightarrow> int \<Rightarrow> int \<Rightarrow> bool \<times> 'f"
  Consume :: "'f \<Rightarrow> int16_t list \<Rightarrow> 'f"
  Finish :: "'f \<Rightarrow> uint32_t list \<times> 'f"

record 'f ChromaprintContextPrivate =
  finished :: bool
  algorithm :: int
  fingerprinter :: 'f
  fingerprint :: "uint32_t list"

definition chromaprint_new :: "'f Fingerprinter \<Rightarrow> int \<Rightarrow> 'f ChromaprintContextPrivate" where
  "chromaprint_new F a =
     \<lparr>finished = False, algorithm = a, fingerprinter = Create F a, fingerprint = []\<rparr>"

definition chromaprint_set_option ::
  "'f Fingerprinter \<Rightarrow> 'f ChromaprintContextPrivate \<Rightarrow> string \<Rightarrow> int
     \<Rightarrow> int \<times> 'f ChromaprintContextPrivate" where
  "chromaprint_set_option F ctx name v =
     (case SetOption F (fingerprinter ctx) name v of
        (ok, f) \<Rightarrow> (if ok then 1 else 0, ctx\<lparr>fingerprinter := f\<rparr>))"

text \<open>\<open>chromaprint_start\<close> clears the flag first and then returns what \<open>Start\<close> returns.\<close>

definition chromaprint_start ::
  "'f Fingerprinter \<Rightarrow> 'f ChromaprintContextPrivate \<Rightarrow> int \<Rightarrow> int
     \<Rightarrow> int \<times> 'f ChromaprintContextPrivate" where
  "chromaprint_start F ctx sample_rate num_channels =
     (let ctx1 = ctx\<lparr>finished := False\<rparr> in
      case Start F (fingerprinter ctx1) sample_rate num_channels of
        (ok, f) \<Rightarrow> (if ok then 1 else 0, ctx1\<lparr>fingerprinter := f\<rparr>))"

text \<open>The argument \<open>data\<close> is the list of the \<open>length\<close> samples at the pointer.\<close>

definition chromaprint_feed ::
  "'f Fingerprinter \<Rightarrow> 'f ChromaprintContextPrivate \<Rightarrow> int16_t list
     \<Rightarrow> int \<times> 'f ChromaprintContextPrivate" where
  "chromaprint_feed F ctx data =
     (1, ctx\<lparr>fingerprinter := Consume F (fingerprinter ctx) data\<rparr>)"

definition chromaprint_finish ::
  "'f Fingerprinter \<Rightarrow> 'f ChromaprintContextPrivate \<Rightarrow> int \<times> 'f ChromaprintContextPrivate" where
  "chromaprint_finish F ctx =
     (case Finish F (fingerprinter ctx) of
        (fp, f) \<Rightarrow> (1, ctx\<lparr>fingerprinter := f, fingerprint := fp, finished := True\<rparr>))"


subsection \<open>Helpers of the headers\<close>

datatype error = ConfigurationError | StateError | CorruptDataError | InsufficientDataError

text \<open>
  Modelled from the spec: \<open>SimHash\<close> of \<open>simhash.h\<close>, which is not in the file. For each of
  the 32 bit positions it counts, over the whole sequence, the elements with the bit set and
  the elements with the bit unset; the digest gets the bit when the first count is strictly
  greater than the second.
\<close>

fun count_bit :: "nat \<Rightarrow> uint32_t list \<Rightarrow> nat \<times> nat" where
  "count_bit b [] = (0, 0)"
| "count_bit b (w # ws) =
     (case count_bit b ws of (s, u) \<Rightarrow> if bit w b then (Suc s, u) else (s, Suc u))"

definition SimHash :: "uint32_t list \<Rightarrow> uint32_t" where
  "SimHash fp =
     fold (\<lambda>b h. case count_bit b fp of (s, u) \<Rightarrow> if u < s then set_bit b h else h)
       [0..<32] 0"

text \<open>
  Modelled from the spec: \<open>CompressFingerprint\<close> of \<open>fingerprint_compressor.h\<close>, which is
  not in the file. The compressed form is one byte for the algorithm id, then the stream of
  deltas: each element XOR its predecessor (the first against zero), each delta written in a
  byte-oriented variable-length code, seven bits per byte from the low end, the high bit of a
  byte saying that another byte follows. The byte of the algorithm id is the low eight bits
  of the C \<open>int\<close> (\<open>char_of\<close>). A \<open>std::string\<close> is a \<open>string\<close>, a list of 8-bit
  characters.
\<close>

function put_varint :: "nat \<Rightarrow> string" where
  "put_varint n =
     (if n < 128 then [char_of n] else char_of (128 + n mod 128) # put_varint (n div 128))"
  by pat_completeness auto
termination
  by (relation "measure id") auto

fun deltas :: "uint32_t \<Rightarrow> uint32_t list \<Rightarrow> uint32_t list" where
  "deltas prev [] = []"
| "deltas prev (x # xs) = (x XOR prev) # deltas x xs"

definition CompressFingerprint :: "uint32_t list \<Rightarrow> int \<Rightarrow> string" where
  "CompressFingerprint fp a =
     char_of a # concat (map (\<lambda>d. put_varint (unat d)) (deltas 0 fp))"

text \<open>
  Modelled from the spec: the decompressor of \<open>fingerprint_decompressor.h\<close>, which is not in
  the file. \<open>Decompress\<close> reads the byte of the algorithm id, then decodes the deltas and
  accumulates their XOR. Every read is of a byte that is there: a stream that stops inside
  a code, a code of more than 32 bits and an input without the first byte are
  \<open>CorruptDataError\<close>, with no partial result. \<open>read_deltas acc shift prev\<close> is the cursor:
  the bits of the current code read so far, their number, and the last element.
\<close>

definition emit :: "uint32_t \<Rightarrow> error + uint32_t list \<Rightarrow> error + uint32_t list" where
  "emit x r = (case r of Inl e \<Rightarrow> Inl e | Inr xs \<Rightarrow> Inr (x # xs))"

fun read_deltas :: "nat \<Rightarrow> nat \<Rightarrow> uint32_t \<Rightarrow> string \<Rightarrow> error + uint32_t list" where
  "read_deltas acc shift prev [] = (if shift = 0 then Inr [] else Inl CorruptDataError)"
| "read_deltas acc shift prev (c # cs) =
     (let b = of_char c; v = acc + (b mod 128) * 2 ^ shift in
      if 128 \<le> b then read_deltas v (shift + 7) prev cs
      else if 2 ^ 32 \<le> v then Inl CorruptDataError
      else emit (prev XOR of_nat v) (read_deltas 0 0 (prev XOR of_nat v) cs))"

definition Decompress :: "string \<Rightarrow> error + uint32_t list \<times> int" where
  "Decompress s =
     (case s of
        [] \<Rightarrow> Inl CorruptDataError
      | t # cs \<Rightarrow>
          (case read_deltas 0 0 0 cs of Inl e \<Rightarrow> Inl e | Inr fp \<Rightarrow> Inr (fp, of_char t)))"

text \<open>
  Modelled from the spec: the function \<open>DecompressFingerprint(data, &algorithm)\<close> as the
  file calls it, which returns the vector and stores the algorithm id through the pointer.
  On \<open>CorruptDataError\<close> there is no partial result: the vector is empty and nothing is
  stored (\<open>None\<close>).
\<close>

definition DecompressFingerprint :: "string \<Rightarrow> uint32_t list \<times> int option" where
  "DecompressFingerprint s =
     (case Decompress s of Inl e \<Rightarrow> ([], None) | Inr (fp, a) \<Rightarrow> (fp, Some a))"

text \<open>
  Modelled from the spec: \<open>Base64Encode\<close> and \<open>Base64Decode\<close> of \<open>base64.h\<close>, which is not
  in the file: base64 over the URL-safe alphabet (\<open>-\<close> and \<open>_\<close> for \<open>+\<close> and \<open>/\<close>). Encoding
  always emits the padding; decoding skips padding characters, so it accepts its input with
  or without them. The spec gives no error for the text form and the file tests none: a
  character outside the alphabet decodes as the value 0, and a single trailing character,
  which carries less than a byte, is dropped.
\<close>

definition kBase64Chars :: string where
  "kBase64Chars = ''ABCDEFGHIJKLMNOPQRSTUVWXYZabcdefghijklmnopqrstuvwxyz0123456789-_''"

definition b64_char :: "nat \<Rightarrow> char" where
  "b64_char i = kBase64Chars ! i"

fun position :: "'a \<Rightarrow> 'a list \<Rightarrow> nat option" where
  "position x [] = None"
| "position x (y # ys) = (if x = y then Some 0 else map_option Suc (position x ys))"

definition b64_value :: "char \<Rightarrow> nat" where
  "b64_value c = (case position c kBase64Chars of Some i \<Rightarrow> i | None \<Rightarrow> 0)"

text \<open>The four characters of a 24-bit group, and the three bytes of one.\<close>

definition sextets4 :: "nat \<Rightarrow> string" where
  "sextets4 n =
     [b64_char (n div 262144), b64_char (n div 4096 mod 64), b64_char (n div 64 mod 64),
      b64_char (n mod 64)]"

definition bytes3 :: "nat \<Rightarrow> string" where
  "bytes3 n = [char_of (n div 65536), char_of (n div 256 mod 256), char_of (n mod 256)]"

fun Base64Encode :: "string \<Rightarrow> string" where
  "Base64Encode (a # b # c # rest) =
     sextets4 ((of_char a * 256 + of_char b) * 256 + of_char c) @ Base64Encode rest"
| "Base64Encode [a, b] = take 3 (sextets4 ((of_char a * 256 + of_char b) * 256)) @ ''=''"
| "Base64Encode [a] = take 2 (sextets4 (of_char a * 256 * 256)) @ ''==''"
| "Base64Encode [] = []"

fun decode_sextets :: "nat list \<Rightarrow> string" where
  "decode_sextets (p # q # r # s # rest) =
     bytes3 (((p * 64 + q) * 64 + r) * 64 + s) @ decode_sextets rest"
| "decode_sextets [p, q, r] = take 2 (bytes3 (((p * 64 + q) * 64 + r) * 64))"
| "decode_sextets [p, q] = take 1 (bytes3 ((p * 64 + q) * 64 * 64))"
| "decode_sextets _ = []"

definition Base64Decode :: "string \<Rightarrow> string" where
  "Base64Decode s = decode_sextets (map b64_value (filter (\<lambda>c. c \<noteq> CHR ''='') s))"


text \<open>
  Modelled from the spec: a \<open>Fingerprinter\<close>, the class of \<open>fingerprinter.h\<close>, which is not in
  the file. \<open>Start\<close> takes a sample rate above zero and one or two channels, resets the
  session, and fails on other arguments, leaving the state as it was; \<open>Consume\<close> appends the
  samples; no option name is known, so \<open>SetOption\<close> fails without a change. The spectral
  analysis and the classifiers are not modelled: \<open>Finish\<close> emits one word for each sample
  consumed since \<open>Start\<close>, which is deterministic and does not depend on how the samples were
  split into chunks, as the spec asks of the pipeline. The session functions are defined and
  proved for every \<open>Fingerprinter\<close>; this one runs them on concrete inputs.
\<close>

record Fingerprinter_state =
  sample_rate :: int
  num_channels :: int
  samples :: "int16_t list"

definition simple_Fingerprinter :: "Fingerprinter_state Fingerprinter" where
  "simple_Fingerprinter =
     \<lparr>Create = (\<lambda>a. \<lparr>sample_rate = 0, num_channels = 0, samples = []\<rparr>),
      SetOption = (\<lambda>f name v. (False, f)),
      Start = (\<lambda>f rate channels.
        if 0 < rate \<and> (channels = 1 \<or> channels = 2)
        then (True, \<lparr>sample_rate = rate, num_channels = channels, samples = []\<rparr>)
        else (False, f)),
      Consume = (\<lambda>f data. f\<lparr>samples := samples f @ data\<rparr>),
      Finish = (\<lambda>f. (map ucast (samples f), f))\<rparr>"

subsection \<open>Reading the fingerprint of a session\<close>

text \<open>
  Both getters that return a buffer call \<open>malloc\<close>. The parameter \<open>malloc\<close> says, for the
  number of bytes asked, whether the allocator returns a block (\<open>True\<close>) or \<open>NULL\<close>.

  \<open>chromaprint_get_fingerprint\<close>: \<open>*data\<close> is the base64 text of the compressed fingerprint.
  The result of \<open>malloc\<close> is not tested: when it is \<open>NULL\<close>, \<open>Base64Encode\<close> writes through
  it and the behaviour is undefined. A call either returns (its return value and \<open>*data\<close>)
  or has undefined behaviour.

  Modelled from the spec: \<open>GetBase64EncodedSize\<close> of \<open>base64.h\<close>, which is not in the file,
  is the length of the text that \<open>Base64Encode\<close> produces, padding included: four
  characters for every three bytes or part of three.
\<close>

datatype 'a outcome = Returns 'a | Undefined_behaviour

definition GetBase64EncodedSize :: "nat \<Rightarrow> nat" where
  "GetBase64EncodedSize n = 4 * ((n + 2) div 3)"

definition chromaprint_get_fingerprint ::
  "(nat \<Rightarrow> bool) \<Rightarrow> 'f ChromaprintContextPrivate \<Rightarrow> (int \<times> string option) outcome" where
  "chromaprint_get_fingerprint malloc ctx =
     (if \<not> finished ctx then Returns (0, None)
      else
        let fp = CompressFingerprint (fingerprint ctx) (algorithm ctx) in
        if malloc (GetBase64EncodedSize (length fp) + 1) then Returns (1, Some (Base64Encode fp))
        else Undefined_behaviour)"

text \<open>
  \<open>chromaprint_get_raw_fingerprint\<close> tests the result of \<open>malloc\<close>. The results are the
  return value, \<open>*data\<close> (\<open>Some None\<close> when \<open>NULL\<close> was stored, \<open>Some (Some xs)\<close> for a block
  holding \<open>xs\<close>) and \<open>*size\<close>.
\<close>

definition chromaprint_get_raw_fingerprint ::
  "(nat \<Rightarrow> bool) \<Rightarrow> 'f ChromaprintContextPrivate
     \<Rightarrow> int \<times> uint32_t list option option \<times> int option" where
  "chromaprint_get_raw_fingerprint malloc ctx =
     (if \<not> finished ctx then (0, None, None)
      else if \<not> malloc (4 * length (fingerprint ctx)) then (0, Some None, None)
      else (1, Some (Some (fingerprint ctx)), Some (int (length (fingerprint ctx)))))"

definition chromaprint_get_fingerprint_hash ::
  "'f ChromaprintContextPrivate \<Rightarrow> int \<times> uint32_t option" where
  "chromaprint_get_fingerprint_hash ctx =
     (if \<not> finished ctx then (0, None) else (1, Some (SimHash (fingerprint ctx))))"

text \<open>An allocator with memory for every request, and one that is out of memory.\<close>

definition enough_memory :: "nat \<Rightarrow> bool" where
  "enough_memory n = True"

definition out_of_memory :: "nat \<Rightarrow> bool" where
  "out_of_memory n = False"

subsection \<open>The stand-alone entry points\<close>

text \<open>
  \<open>array xs\<close> is the pointer to the first element of an array that holds \<open>xs\<close>; \<open>vector p n\<close>
  is what \<open>std::vector(p, p + n)\<close> and \<open>std::string(p, n)\<close> read through a pointer, for
  \<open>n\<close> from 0 up. With a negative \<open>n\<close> the C++ constructors are undefined; no statement
  below is about such a call.
\<close>

definition array :: "'a list \<Rightarrow> nat \<Rightarrow> 'a" where
  "array xs i = xs ! i"

definition vector :: "(nat \<Rightarrow> 'a) \<Rightarrow> int \<Rightarrow> 'a list" where
  "vector p n = map p [0..<nat n]"



text \<open>
  \<open>chromaprint_hash_fingerprint\<close>: \<open>fp\<close> is \<open>None\<close> for \<open>NULL\<close>, \<open>hash\<close> says whether the
  pointer \<open>hash\<close> is not \<open>NULL\<close>; the results are the return value and \<open>*hash\<close>.
\<close>

definition chromaprint_hash_fingerprint ::
  "(nat \<Rightarrow> uint32_t) option \<Rightarrow> int \<Rightarrow> bool \<Rightarrow> int \<times> uint32_t option" where
  "chromaprint_hash_fingerprint fp n hash =
     (if fp = None \<or> n < 0 \<or> \<not> hash then (0, None)
      else (1, Some (SimHash (vector (the fp) n))))"


subsection \<open>The matcher session\<close>

text \<open>
  Modelled from the spec: the \<open>Segment\<close> of \<open>fingerprint_matcher.h\<close>, whose declaration is
  not in the file: two positions and a duration, which are index counts, and the raw score.
  The score is a finite \<open>double\<close>, held as the real number that it denotes.
\<close>

record Segment =
  pos1 :: nat
  pos2 :: nat
  duration :: nat
  score :: real

text \<open>
  The methods of \<open>chromaprint::FingerprintMatcher\<close> that the file calls, over a state \<open>'m\<close>:
  the constructor, \<open>Match\<close>, \<open>segments\<close> and \<open>GetHashTime\<close>.
\<close>

record 'm FingerprintMatcher =
  NewMatcher :: "int \<Rightarrow> 'm"
  Match :: "'m \<Rightarrow> uint32_t list \<Rightarrow> uint32_t list \<Rightarrow> bool \<times> 'm"
  segments :: "'m \<Rightarrow> Segment list"
  GetHashTime :: "'m \<Rightarrow> nat \<Rightarrow> real"

text \<open>The two slots \<open>fp[0]\<close> and \<open>fp[1]\<close> are a pair.\<close>

record 'm ChromaprintMatcherContextPrivate =
  m_algorithm :: int
  matcher :: 'm
  m_fp :: "uint32_t list \<times> uint32_t list"

definition fp_at :: "int \<Rightarrow> 'a \<times> 'a \<Rightarrow> 'a" where
  "fp_at idx p = (if idx = 0 then fst p else snd p)"

definition fp_upd :: "int \<Rightarrow> 'a \<Rightarrow> 'a \<times> 'a \<Rightarrow> 'a \<times> 'a" where
  "fp_upd idx v p = (if idx = 0 then (v, snd p) else (fst p, v))"

definition chromaprint_matcher_new ::
  "'m FingerprintMatcher \<Rightarrow> int \<Rightarrow> 'm ChromaprintMatcherContextPrivate option" where
  "chromaprint_matcher_new M version =
     Some \<lparr>m_algorithm = version, matcher = NewMatcher M version, m_fp = ([], [])\<rparr>"

text \<open>
  \<open>chromaprint_matcher_set_fingerprint\<close>: the context is \<open>None\<close> for \<open>NULL\<close>, \<open>fp\<close> is the
  text before the terminating zero. The local \<open>algorithm\<close> is not initialised and the
  decompressor may store nothing in it: \<open>indeterminate\<close> is the value it then has. The slot
  is assigned before the algorithm id is compared.
\<close>

definition chromaprint_matcher_set_fingerprint ::
  "int \<Rightarrow> 'm ChromaprintMatcherContextPrivate option \<Rightarrow> int \<Rightarrow> string
     \<Rightarrow> int \<times> 'm ChromaprintMatcherContextPrivate option" where
  "chromaprint_matcher_set_fingerprint indeterminate ctx idx fp =
     (case ctx of
        None \<Rightarrow> (0, None)
      | Some c \<Rightarrow>
          if idx < 0 \<or> idx > 1 then (0, Some c)
          else
            (case DecompressFingerprint (Base64Decode fp) of
               (v, stored) \<Rightarrow>
                 let c1 = c\<lparr>m_fp := fp_upd idx v (m_fp c)\<rparr>;
                     a = (case stored of Some x \<Rightarrow> x | None \<Rightarrow> indeterminate)
                 in if a \<noteq> m_algorithm c1 then (0, Some c1) else (1, Some c1)))"

definition chromaprint_matcher_set_raw_fingerprint ::
  "'m ChromaprintMatcherContextPrivate option \<Rightarrow> int \<Rightarrow> (nat \<Rightarrow> uint32_t) \<Rightarrow> int
     \<Rightarrow> int \<times> 'm ChromaprintMatcherContextPrivate option" where
  "chromaprint_matcher_set_raw_fingerprint ctx idx fp n =
     (case ctx of
        None \<Rightarrow> (0, None)
      | Some c \<Rightarrow>
          if idx < 0 \<or> idx > 1 then (0, Some c)
          else (1, Some (c\<lparr>m_fp := fp_upd idx (vector fp n) (m_fp c)\<rparr>)))"

definition chromaprint_matcher_run ::
  "'m FingerprintMatcher \<Rightarrow> 'm ChromaprintMatcherContextPrivate option
     \<Rightarrow> int \<times> 'm ChromaprintMatcherContextPrivate option" where
  "chromaprint_matcher_run M ctx =
     (case ctx of
        None \<Rightarrow> (0, None)
      | Some c \<Rightarrow>
          if fp_at 0 (m_fp c) = [] then (0, Some c)
          else if fp_at 1 (m_fp c) = [] then (0, Some c)
          else
            (case Match M (matcher c) (fp_at 0 (m_fp c)) (fp_at 1 (m_fp c)) of
               (ok, m) \<Rightarrow> (if ok then 1 else 0, Some (c\<lparr>matcher := m\<rparr>))))"

text \<open>In the getters the flag beside the context says whether the output pointer is not \<open>NULL\<close>.\<close>

definition chromaprint_matcher_get_num_segments ::
  "'m FingerprintMatcher \<Rightarrow> 'm ChromaprintMatcherContextPrivate option \<Rightarrow> bool
     \<Rightarrow> int \<times> int option" where
  "chromaprint_matcher_get_num_segments M ctx num_segments =
     (case ctx of
        None \<Rightarrow> (0, None)
      | Some c \<Rightarrow>
          if \<not> num_segments then (0, None)
          else (1, Some (int (length (segments M (matcher c))))))"

definition chromaprint_matcher_get_segment_position ::
  "'m FingerprintMatcher \<Rightarrow> 'm ChromaprintMatcherContextPrivate option \<Rightarrow> int
     \<Rightarrow> int \<times> (int \<times> int \<times> int) option" where
  "chromaprint_matcher_get_segment_position M ctx idx =
     (case ctx of
        None \<Rightarrow> (0, None)
      | Some c \<Rightarrow>
          let segs = segments M (matcher c) in
          if idx < 0 \<or> idx \<ge> int (length segs) then (0, None)
          else
            let s = segs ! nat idx
            in (1, Some (int (pos1 s), int (pos2 s), int (duration s))))"

text \<open>
  Arithmetic on \<open>double\<close>. The expressions of the two getters below have \<open>double\<close>
  operands (\<open>32.0\<close>, \<open>1.0\<close>, the score, the time), so each operation is done in IEEE 754
  binary64: the exact result is rounded to the nearest number with 53 significant bits, a tie
  to the one whose last bit is even. \<open>binade x\<close> is the exponent \<open>e\<close> with
  \<open>2^e \<le> |x| < 2^(e+1)\<close>, not below \<open>-1022\<close> (where the subnormal numbers begin) and not
  above \<open>1023\<close>; the numbers of that binade are the multiples of \<open>2^(e-52)\<close>. A \<open>double\<close>
  is the real number that it denotes: infinities and NaN are not values of the model, and
  \<open>double_round\<close> is the IEEE rounding for \<open>|x| < 2^1024\<close> only.
\<close>

definition rne :: "real \<Rightarrow> int" where
  "rne y =
     (let f = \<lfloor>y\<rfloor> in
      if y - of_int f < 1 / 2 then f
      else if 1 / 2 < y - of_int f then f + 1
      else if even f then f else f + 1)"

fun binade_from :: "nat \<Rightarrow> int \<Rightarrow> real \<Rightarrow> int" where
  "binade_from 0 e x = e"
| "binade_from (Suc n) e x = (if 2 powi (e + 1) \<le> x then binade_from n (e + 1) x else e)"

definition binade :: "real \<Rightarrow> int" where
  "binade x = binade_from 2045 (- 1022) \<bar>x\<bar>"

definition double_round :: "real \<Rightarrow> real" where
  "double_round x = of_int (rne (x / 2 powi (binade x - 52))) * 2 powi (binade x - 52)"

definition is_double :: "real \<Rightarrow> bool" where
  "is_double x = (\<bar>x\<bar> < 2 powi 1024 \<and> double_round x = x)"

definition double_div :: "real \<Rightarrow> real \<Rightarrow> real" where
  "double_div a b = double_round (a / b)"

definition double_sub :: "real \<Rightarrow> real \<Rightarrow> real" where
  "double_sub a b = double_round (a - b)"

definition double_mul :: "real \<Rightarrow> real \<Rightarrow> real" where
  "double_mul a b = double_round (a * b)"

text \<open>
  The C function \<open>round\<close>: to the nearest integer, a tie away from zero; its result is a
  \<open>double\<close> without a fraction, held as the integer. The conversion of that result to
  \<open>int\<close> is the identity on a value that an \<open>int\<close> holds (\<open>fits_int\<close>) and is undefined in
  C++ on any other.
\<close>

definition c_round :: "real \<Rightarrow> int" where
  "c_round x = (if 0 \<le> x then \<lfloor>x + 1 / 2\<rfloor> else \<lceil>x - 1 / 2\<rceil>)"

definition fits_int :: "int \<Rightarrow> bool" where
  "fits_int v = (- 2147483648 \<le> v \<and> v \<le> 2147483647)"

definition chromaprint_matcher_get_segment_position_ms ::
  "'m FingerprintMatcher \<Rightarrow> 'm ChromaprintMatcherContextPrivate option \<Rightarrow> int
     \<Rightarrow> int \<times> (int \<times> int \<times> int) option" where
  "chromaprint_matcher_get_segment_position_ms M ctx idx =
     (case ctx of
        None \<Rightarrow> (0, None)
      | Some c \<Rightarrow>
          let segs = segments M (matcher c) in
          if idx < 0 \<or> idx \<ge> int (length segs) then (0, None)
          else
            let s = segs ! nat idx
            in (1, Some (c_round (double_mul 1000 (GetHashTime M (matcher c) (pos1 s))),
                         c_round (double_mul 1000 (GetHashTime M (matcher c) (pos2 s))),
                         c_round (double_mul 1000 (GetHashTime M (matcher c) (duration s))))))"

definition chromaprint_matcher_get_segment_score ::
  "'m FingerprintMatcher \<Rightarrow> 'm ChromaprintMatcherContextPrivate option \<Rightarrow> int
     \<Rightarrow> int \<times> int option" where
  "chromaprint_matcher_get_segment_score M ctx idx =
     (case ctx of
        None \<Rightarrow> (0, None)
      | Some c \<Rightarrow>
          let segs = segments M (matcher c) in
          if idx < 0 \<or> idx \<ge> int (length segs) then (0, None)
          else
            (1, Some (max 0 (min 100
                  (c_round (double_mul 100 (double_sub 1 (double_div (score (segs ! nat idx)) 32))))))))"

text \<open>
  The \<open>clamp\<close> of the specification's formula for the normalised score,
  \<open>clamp(0, 100, round(100 \<times> (1 - rawScore / 32)))\<close>; its \<open>round\<close> is \<^const>\<open>round\<close>, to the
  nearest integer. \<open>double_score\<close> is the value that the getter rounds: the formula's
  argument with each operation done on \<open>double\<close>.
\<close>

definition double_score :: "real \<Rightarrow> real" where
  "double_score rawScore = double_mul 100 (double_sub 1 (double_div rawScore 32))"


definition clamp :: "int \<Rightarrow> int \<Rightarrow> int \<Rightarrow> int" where
  "clamp lo hi x = (if x < lo then lo else if hi < x then hi else x)"

text \<open>
  A matcher that holds a list of segments and whose \<open>Match\<close> is never reached by the
  statements below: it runs the getters on concrete segments.
\<close>

definition stored_segments :: "Segment list FingerprintMatcher" where
  "stored_segments =
     \<lparr>NewMatcher = (\<lambda>a. []), Match = (\<lambda>m a b. (True, m)), segments = (\<lambda>m. m),
      GetHashTime = (\<lambda>m i. real i / 8)\<rparr>"

subsection \<open>Sessions to run the functions on\<close>

text \<open>
  Two sessions of the simple fingerprinter: one that was started, fed two samples and
  finished, and one that was started and finished with no sample between, whose fingerprint
  is empty. And a matcher session for the algorithm id 1 whose first slot holds a
  fingerprint and whose second slot is empty.
\<close>

definition finished_session :: "Fingerprinter_state ChromaprintContextPrivate" where
  "finished_session =
     snd (chromaprint_finish simple_Fingerprinter
       (snd (chromaprint_feed simple_Fingerprinter
         (snd (chromaprint_start simple_Fingerprinter
           (chromaprint_new simple_Fingerprinter 1) 11025 1)) [3, 5])))"

definition silent_session :: "Fingerprinter_state ChromaprintContextPrivate" where
  "silent_session =
     snd (chromaprint_finish simple_Fingerprinter
       (snd (chromaprint_start simple_Fingerprinter
         (chromaprint_new simple_Fingerprinter 1) 11025 1)))"

definition matcher_session :: "Segment list ChromaprintMatcherContextPrivate" where
  "matcher_session = \<lparr>m_algorithm = 1, matcher = [], m_fp = ([7], [])\<rparr>"

text \<open>
  Three raw scores: the \<open>double\<close> nearest to 0.8, the \<open>double\<close> nearest to 13.6, and
  \<open>12 + 2^-49\<close>. And a matcher session whose matcher holds four segments with the raw
  scores 0 and these three.
\<close>

definition double_0_8 :: real where
  "double_0_8 = 7205759403792794 / 2 ^ 53"

definition double_13_6 :: real where
  "double_13_6 = 7656119366529843 / 2 ^ 49"

definition double_12_up :: real where
  "double_12_up = 12 + 1 / 2 ^ 49"

definition scored_session :: "Segment list ChromaprintMatcherContextPrivate" where
  "scored_session =
     \<lparr>m_algorithm = 1,
      matcher = [\<lparr>pos1 = 0, pos2 = 4, duration = 10, score = 0\<rparr>,
                 \<lparr>pos1 = 20, pos2 = 24, duration = 8, score = double_0_8\<rparr>,
                 \<lparr>pos1 = 40, pos2 = 44, duration = 9, score = double_12_up\<rparr>,
                 \<lparr>pos1 = 60, pos2 = 64, duration = 7, score = double_13_6\<rparr>],
      m_fp = ([7], [7])\<rparr>"

declare put_varint.simps [simp del]

section \<open>Properties\<close>

subsection \<open>The digest\<close>

lemma count_bit_filter:
  "count_bit b fp = (length (filter (\<lambda>w. bit w b) fp), length (filter (\<lambda>w. \<not> bit w b) fp))"
  by (induction fp) auto

lemma bit_fold_set_bit:
  fixes h :: uint32_t
  shows "bit (fold (\<lambda>b h. if P b then set_bit b h else h) bs h) n
     \<longleftrightarrow> bit h n \<or> (n \<in> set bs \<and> P n \<and> n < 32)"
  by (induction bs arbitrary: h) (auto simp: bit_simps)

lemma SimHash_fold:
  "SimHash fp =
     fold (\<lambda>b h. if length (filter (\<lambda>w. \<not> bit w b) fp) < length (filter (\<lambda>w. bit w b) fp)
                  then set_bit b h else h) [0..<32] 0"
  by (simp add: SimHash_def count_bit_filter)

lemma bit_SimHash:
  "bit (SimHash fp) b \<longleftrightarrow>
     b < 32 \<and> length (filter (\<lambda>w. \<not> bit w b) fp) < length (filter (\<lambda>w. bit w b) fp)"
  unfolding SimHash_fold bit_fold_set_bit by auto

lemma SimHash_Nil: "SimHash [] = 0"
  by (rule bit_eqI) (simp add: bit_SimHash)

text \<open>
  C9. For every sequence and every bit position, the bit of the digest is set exactly when
  the position is one of the 32 and strictly more elements have the bit set than unset;
  a tie leaves it unset, and the digest of the empty sequence is 0. Both functions that
  return a digest return this one.
\<close>

theorem SimHash_majority:
  "(bit (SimHash fp) b \<longleftrightarrow>
      b < 32 \<and> length (filter (\<lambda>w. \<not> bit w b) fp) < length (filter (\<lambda>w. bit w b) fp))
   \<and> SimHash [] = 0
   \<and> chromaprint_hash_fingerprint (Some (array fp)) (int (length fp)) True = (1, Some (SimHash fp))
   \<and> chromaprint_get_fingerprint_hash (ctx\<lparr>finished := True, fingerprint := fp\<rparr>)
        = (1, Some (SimHash fp))"
proof -
  have "vector (array fp) (int (length fp)) = fp"
    by (simp add: vector_def array_def [abs_def] map_nth)
  then show ?thesis
    by (simp add: bit_SimHash SimHash_Nil chromaprint_hash_fingerprint_def
        chromaprint_get_fingerprint_hash_def)
qed

theorem SimHash_majority_witness:
  "bit (SimHash [5, 7, 1]) 2 \<and> \<not> bit (SimHash [5, 7, 1, 8]) 2 \<and> SimHash [] = 0"
  using SimHash_majority [of "[5, 7, 1]" 2 "chromaprint_new simple_Fingerprinter 1"]
    SimHash_majority [of "[5, 7, 1, 8]" 2 "chromaprint_new simple_Fingerprinter 1"]
  by simp

subsection \<open>The compressed form\<close>

lemma read_deltas_put_varint:
  "read_deltas acc sh prev (put_varint n @ rest) =
     (if 2 ^ 32 \<le> acc + n * 2 ^ sh then Inl CorruptDataError
      else emit (prev XOR of_nat (acc + n * 2 ^ sh))
             (read_deltas 0 0 (prev XOR of_nat (acc + n * 2 ^ sh)) rest))"
proof (induction n arbitrary: acc sh rule: put_varint.induct)
  case (1 n)
  show ?case
  proof (cases "n < 128")
    case True
    then show ?thesis
      by (subst put_varint.simps) (simp add: Let_def)
  next
    case False
    have "n * 2 ^ sh = (n mod 128 + n div 128 * 128) * 2 ^ sh"
      by simp
    also have "\<dots> = n mod 128 * 2 ^ sh + n div 128 * (128 * 2 ^ sh)"
      by (simp only: add_mult_distrib mult.assoc)
    also have "128 * 2 ^ sh = (2::nat) ^ (sh + 7)"
      by (simp add: power_add)
    finally have total: "acc + n mod 128 * 2 ^ sh + n div 128 * 2 ^ (sh + 7) = acc + n * 2 ^ sh"
      by simp
    have byte: "(of_char (char_of (128 + n mod 128)) :: nat) = 128 + n mod 128"
      by simp
    have step: "read_deltas acc sh prev (put_varint n @ rest)
       = read_deltas (acc + n mod 128 * 2 ^ sh) (sh + 7) prev (put_varint (n div 128) @ rest)"
      using False by (subst put_varint.simps) (simp add: Let_def byte del: of_char_of)
    show ?thesis
      unfolding step "1.IH" [OF False] total ..
  qed
qed

lemma read_deltas_deltas:
  "read_deltas 0 0 prev (concat (map (\<lambda>d. put_varint (unat d)) (deltas prev xs))) = Inr xs"
proof (induction xs arbitrary: prev)
  case Nil
  show ?case by simp
next
  case (Cons x xs)
  have lt: "\<not> (2::nat) ^ 32 \<le> unat (x XOR prev)"
    using unsigned_less [of "x XOR prev", where ?'a = nat] by simp
  have undo: "prev XOR (x XOR prev) = x"
    by (simp add: xor.commute xor.left_commute)
  show ?case
    using lt by (simp add: read_deltas_put_varint undo Cons.IH emit_def del: read_deltas.simps)
qed

lemma Decompress_Compress: "Decompress (CompressFingerprint fp a) = Inr (fp, a mod 256)"
  by (simp add: Decompress_def CompressFingerprint_def read_deltas_deltas)

lemma DecompressFingerprint_Compress:
  "DecompressFingerprint (CompressFingerprint fp a) = (fp, Some (a mod 256))"
  by (simp add: DecompressFingerprint_def Decompress_Compress)

subsection \<open>The text form\<close>

lemma position_nth: "distinct xs \<Longrightarrow> i < length xs \<Longrightarrow> position (xs ! i) xs = Some i"
proof (induction xs arbitrary: i)
  case Nil
  then show ?case by simp
next
  case (Cons y ys)
  then show ?case by (cases i) auto
qed

lemma distinct_kBase64Chars: "distinct kBase64Chars"
  by (simp add: kBase64Chars_def)

lemma length_kBase64Chars: "length kBase64Chars = 64"
  by (simp add: kBase64Chars_def)

lemma b64_value_char: "i < 64 \<Longrightarrow> b64_value (b64_char i) = i"
  by (simp add: b64_value_def b64_char_def position_nth distinct_kBase64Chars length_kBase64Chars)

lemma b64_char_not_pad: "i < 64 \<Longrightarrow> b64_char i \<noteq> CHR ''=''"
proof -
  assume "i < 64"
  then have "b64_char i \<in> set kBase64Chars"
    by (simp add: b64_char_def length_kBase64Chars)
  moreover have "CHR ''='' \<notin> set kBase64Chars"
    by (simp add: kBase64Chars_def)
  ultimately show ?thesis by auto
qed

lemma regroup:
  fixes n :: nat
  shows "((n div 262144 * 64 + n div 4096 mod 64) * 64 + n div 64 mod 64) * 64 + n mod 64 = n"
proof -
  have a: "n div 262144 = n div 4096 div 64" and b: "n div 4096 = n div 64 div 64"
    by (simp_all add: div_mult2_eq [symmetric])
  have "n div 262144 * 64 + n div 4096 mod 64 = n div 4096"
    unfolding a by (rule div_mult_mod_eq)
  moreover have "n div 4096 * 64 + n div 64 mod 64 = n div 64"
    unfolding b by (rule div_mult_mod_eq)
  moreover have "n div 64 * 64 + n mod 64 = n"
    by (rule div_mult_mod_eq)
  ultimately show ?thesis by simp
qed

lemma regroup3:
  fixes n :: nat
  assumes "n mod 64 = 0"
  shows "((n div 262144 * 64 + n div 4096 mod 64) * 64 + n div 64 mod 64) * 64 = n"
  using regroup [of n] assms by simp

lemma regroup2:
  fixes n :: nat
  assumes "n mod 4096 = 0"
  shows "(n div 262144 * 64 + n div 4096 mod 64) * 64 * 64 = n"
proof -
  have a: "n div 262144 = n div 4096 div 64"
    by (simp add: div_mult2_eq [symmetric])
  have "n div 262144 * 64 + n div 4096 mod 64 = n div 4096"
    unfolding a by (rule div_mult_mod_eq)
  moreover have "n div 4096 * 4096 = n"
    using assms by (simp add: mod_eq_0_iff_dvd)
  ultimately show ?thesis by simp
qed

lemma div_mod_256:
  fixes k z :: nat
  assumes "z < 256"
  shows "(k * 256 + z) div 256 = k" and "(k * 256 + z) mod 256 = z"
  using assms by simp_all

lemma bytes3_pack:
  fixes x y z :: nat
  assumes "y < 256" "z < 256"
  shows "bytes3 ((x * 256 + y) * 256 + z) = [char_of x, char_of y, char_of z]"
proof -
  define n where "n = (x * 256 + y) * 256 + z"
  have d: "n div 256 = x * 256 + y" and m: "n mod 256 = z"
    unfolding n_def by (rule div_mod_256 [OF assms(2)])+
  have "n div 65536 = n div 256 div 256"
    by (simp add: div_mult2_eq [symmetric])
  then have "n div 65536 = x" and "n div 256 mod 256 = y"
    unfolding d using div_mod_256 [OF assms(1), of x] by simp_all
  then show ?thesis
    unfolding n_def [symmetric] bytes3_def using m by simp
qed

lemma pack_bound:
  fixes x y z :: nat
  shows "x < 256 \<Longrightarrow> y < 256 \<Longrightarrow> z < 256 \<Longrightarrow> (x * 256 + y) * 256 + z < 16777216"
  by simp

lemma sextets4_values:
  assumes "n < 16777216"
  shows "map b64_value (filter (\<lambda>c. c \<noteq> CHR ''='') (sextets4 n))
           = [n div 262144, n div 4096 mod 64, n div 64 mod 64, n mod 64]"
proof -
  have "n div 262144 < 64" using assms by simp
  then show ?thesis
    by (simp add: sextets4_def b64_value_char b64_char_not_pad)
qed

lemma Base64Decode_sextets4:
  assumes "n < 16777216"
  shows "Base64Decode (sextets4 n @ cs) = bytes3 n @ Base64Decode cs"
  unfolding Base64Decode_def filter_append map_append sextets4_values [OF assms]
  by (simp only: append.simps decode_sextets.simps regroup)

lemma Base64Decode_pad1:
  assumes "n < 16777216" "n mod 64 = 0"
  shows "Base64Decode (take 3 (sextets4 n) @ ''='') = take 2 (bytes3 n)"
proof -
  have "n div 262144 < 64" using assms by simp
  then have "map b64_value (filter (\<lambda>c. c \<noteq> CHR ''='') (take 3 (sextets4 n) @ ''=''))
      = [n div 262144, n div 4096 mod 64, n div 64 mod 64]"
    by (simp add: sextets4_def b64_value_char b64_char_not_pad)
  then show ?thesis
    unfolding Base64Decode_def by (simp only: decode_sextets.simps regroup3 [OF assms(2)])
qed

lemma Base64Decode_pad2:
  assumes "n < 16777216" "n mod 4096 = 0"
  shows "Base64Decode (take 2 (sextets4 n) @ ''=='') = take 1 (bytes3 n)"
proof -
  have "n div 262144 < 64" using assms by simp
  then have "map b64_value (filter (\<lambda>c. c \<noteq> CHR ''='') (take 2 (sextets4 n) @ ''==''))
      = [n div 262144, n div 4096 mod 64]"
    by (simp add: sextets4_def b64_value_char b64_char_not_pad)
  then show ?thesis
    unfolding Base64Decode_def by (simp only: decode_sextets.simps regroup2 [OF assms(2)])
qed

lemma Base64Decode_Encode: "Base64Decode (Base64Encode bs) = bs"
proof (induction bs rule: Base64Encode.induct)
  case (1 a b c rest)
  have lt: "(of_char a * 256 + of_char b) * 256 + of_char c < (16777216::nat)"
    by (rule pack_bound) simp_all
  have "Base64Decode (Base64Encode (a # b # c # rest))
      = bytes3 ((of_char a * 256 + of_char b) * 256 + of_char c) @ rest"
    by (simp only: Base64Encode.simps Base64Decode_sextets4 [OF lt] "1.IH")
  also have "bytes3 ((of_char a * 256 + of_char b) * 256 + of_char c) = [a, b, c]"
    by (subst bytes3_pack) simp_all
  finally show ?case by simp
next
  case (2 a b)
  have lt: "(of_char a * 256 + of_char b) * 256 + 0 < (16777216::nat)"
    by (rule pack_bound) simp_all
  have m: "((of_char a * 256 + of_char b) * 256 + 0) mod 64 = (0::nat)"
    by simp
  have "Base64Decode (Base64Encode [a, b])
      = take 2 (bytes3 ((of_char a * 256 + of_char b) * 256 + 0))"
    using Base64Decode_pad1 [OF lt m] by (simp only: Base64Encode.simps add_0_right)
  also have "bytes3 ((of_char a * 256 + of_char b) * 256 + 0) = [a, b, char_of (0::nat)]"
    by (subst bytes3_pack) simp_all
  finally show ?case by simp
next
  case (3 a)
  have lt: "(of_char a * 256 + 0) * 256 + 0 < (16777216::nat)"
    by (rule pack_bound) simp_all
  have m: "((of_char a * 256 + 0) * 256 + 0) mod 4096 = (0::nat)"
    by simp
  have "Base64Decode (Base64Encode [a])
      = take 1 (bytes3 ((of_char a * 256 + 0) * 256 + 0))"
    using Base64Decode_pad2 [OF lt m] by (simp only: Base64Encode.simps add_0_right)
  also have "bytes3 ((of_char a * 256 + 0) * 256 + 0) = [a, char_of (0::nat), char_of (0::nat)]"
    by (subst bytes3_pack) simp_all
  finally show ?case by simp
next
  case 4
  then show ?case by (simp add: Base64Decode_def)
qed

subsection \<open>The stand-alone entry points\<close>

lemma vector_array: "vector (array xs) (int (length xs)) = xs"
  by (simp add: vector_def array_def [abs_def] map_nth)





subsection \<open>The fingerprinter session\<close>

lemma finished_session_eq:
  "finished_session
   = \<lparr>finished = True, algorithm = 1,
      fingerprinter = \<lparr>sample_rate = 11025, num_channels = 1, samples = [3, 5]\<rparr>,
      fingerprint = [3, 5]\<rparr>"
  by (simp add: finished_session_def chromaprint_finish_def chromaprint_feed_def
      chromaprint_start_def chromaprint_new_def simple_Fingerprinter_def)

lemma silent_session_eq:
  "silent_session
   = \<lparr>finished = True, algorithm = 1,
      fingerprinter = \<lparr>sample_rate = 11025, num_channels = 1, samples = []\<rparr>,
      fingerprint = []\<rparr>"
  by (simp add: silent_session_def chromaprint_finish_def chromaprint_start_def
      chromaprint_new_def simple_Fingerprinter_def)

text \<open>
  C2 (amended). \<open>chromaprint_feed\<close> has no failure: in every session, finished or not, it
  hands the samples to the fingerprinter and returns 1; the flag \<open>finished\<close>, the algorithm
  id and the stored fingerprint stay as they were.
\<close>

theorem chromaprint_feed_always_succeeds:
  "fst (chromaprint_feed F ctx data) = 1
   \<and> finished (snd (chromaprint_feed F ctx data)) = finished ctx
   \<and> algorithm (snd (chromaprint_feed F ctx data)) = algorithm ctx
   \<and> fingerprint (snd (chromaprint_feed F ctx data)) = fingerprint ctx
   \<and> fingerprinter (snd (chromaprint_feed F ctx data)) = Consume F (fingerprinter ctx) data"
  by (simp add: chromaprint_feed_def)

text \<open>
  The session \<open>finished_session\<close> is finished, by a \<open>chromaprint_finish\<close> that returned 1; a
  \<open>chromaprint_feed\<close> on it returns 1, and the fingerprinter has taken the sample.
\<close>

theorem chromaprint_feed_after_finish_counterexample:
  "finished finished_session
   \<and> chromaprint_feed simple_Fingerprinter finished_session [8]
     = (1, \<lparr>finished = True, algorithm = 1,
            fingerprinter = \<lparr>sample_rate = 11025, num_channels = 1, samples = [3, 5, 8]\<rparr>,
            fingerprint = [3, 5]\<rparr>)"
  unfolding finished_session_eq
  by (simp add: chromaprint_feed_def simple_Fingerprinter_def)

lemma GetBase64EncodedSize_step: "GetBase64EncodedSize (n + 3) = GetBase64EncodedSize n + 4"
  unfolding GetBase64EncodedSize_def by presburger

lemma length_Base64Encode: "length (Base64Encode bs) = GetBase64EncodedSize (length bs)"
proof (induction bs rule: Base64Encode.induct)
  case (1 a b c rest)
  have "length (a # b # c # rest) = length rest + 3"
    by simp
  then show ?case
    using "1.IH" by (simp only: Base64Encode.simps length_append GetBase64EncodedSize_step)
      (simp add: sextets4_def)
qed (simp_all add: GetBase64EncodedSize_def sextets4_def)

text \<open>
  C4 (amended). In a session that is not finished, each of \<open>chromaprint_get_fingerprint\<close>,
  \<open>chromaprint_get_raw_fingerprint\<close> and \<open>chromaprint_get_fingerprint_hash\<close> returns 0 and
  stores nothing, whatever the allocator does. \<open>chromaprint_finish\<close> returns 1, and after it
  \<open>chromaprint_get_fingerprint_hash\<close>, which allocates nothing, returns 1 and stores the
  digest; \<open>chromaprint_get_fingerprint\<close> and \<open>chromaprint_get_raw_fingerprint\<close> return 1 and
  store their result when \<open>malloc\<close> gives them the buffer for it; and when \<open>malloc\<close> has no
  memory for the buffer of a fingerprint that is not empty,
  \<open>chromaprint_get_raw_fingerprint\<close> returns 0.
\<close>

theorem getters_state_discipline:
  "(\<not> finished ctx \<longrightarrow>
      chromaprint_get_fingerprint malloc ctx = Returns (0, None)
      \<and> chromaprint_get_raw_fingerprint malloc ctx = (0, None, None)
      \<and> chromaprint_get_fingerprint_hash ctx = (0, None))
   \<and> (chromaprint_finish F ctx = (r, ctx') \<longrightarrow>
      r = 1
      \<and> chromaprint_get_fingerprint_hash ctx' = (1, Some (SimHash (fingerprint ctx')))
      \<and> (malloc (length (Base64Encode (CompressFingerprint (fingerprint ctx') (algorithm ctx'))) + 1)
           \<longrightarrow> chromaprint_get_fingerprint malloc ctx'
             = Returns (1, Some (Base64Encode
                 (CompressFingerprint (fingerprint ctx') (algorithm ctx')))))
      \<and> (malloc (4 * length (fingerprint ctx'))
           \<longrightarrow> chromaprint_get_raw_fingerprint malloc ctx'
             = (1, Some (Some (fingerprint ctx')), Some (int (length (fingerprint ctx')))))
      \<and> (\<not> malloc (4 * length (fingerprint ctx')) \<and> fingerprint ctx' \<noteq> []
           \<longrightarrow> chromaprint_get_raw_fingerprint malloc ctx' = (0, Some None, None)))"
  by (auto simp: chromaprint_get_fingerprint_def chromaprint_get_raw_fingerprint_def
      chromaprint_get_fingerprint_hash_def chromaprint_finish_def length_Base64Encode Let_def
      split: prod.splits)

theorem getters_state_discipline_witness:
  "chromaprint_get_fingerprint out_of_memory (chromaprint_new simple_Fingerprinter 1)
     = Returns (0, None)
   \<and> chromaprint_get_raw_fingerprint out_of_memory (chromaprint_new simple_Fingerprinter 1)
     = (0, None, None)
   \<and> chromaprint_get_fingerprint_hash (chromaprint_new simple_Fingerprinter 1) = (0, None)
   \<and> chromaprint_finish simple_Fingerprinter (chromaprint_new simple_Fingerprinter 1)
     = (1, (chromaprint_new simple_Fingerprinter 1)\<lparr>finished := True\<rparr>)
   \<and> chromaprint_get_fingerprint enough_memory
        ((chromaprint_new simple_Fingerprinter 1)\<lparr>finished := True\<rparr>)
     = Returns (1, Some ''AQ=='')
   \<and> chromaprint_get_raw_fingerprint enough_memory
        ((chromaprint_new simple_Fingerprinter 1)\<lparr>finished := True\<rparr>)
     = (1, Some (Some []), Some 0)
   \<and> chromaprint_get_raw_fingerprint out_of_memory finished_session = (0, Some None, None)"
proof -
  have n: "\<not> finished (chromaprint_new simple_Fingerprinter 1)"
    by (simp add: chromaprint_new_def)
  have f: "chromaprint_finish simple_Fingerprinter (chromaprint_new simple_Fingerprinter 1)
       = (1, (chromaprint_new simple_Fingerprinter 1)\<lparr>finished := True\<rparr>)"
    by (simp add: chromaprint_finish_def chromaprint_new_def simple_Fingerprinter_def)
  have "CompressFingerprint [] 1 = [CHR 0x01]"
    by code_simp
  then have e: "Base64Encode (CompressFingerprint [] 1) = ''AQ==''"
    by (simp add: sextets4_def b64_char_def kBase64Chars_def)
  have g: "chromaprint_finish simple_Fingerprinter
      (snd (chromaprint_feed simple_Fingerprinter
        (snd (chromaprint_start simple_Fingerprinter
          (chromaprint_new simple_Fingerprinter 1) 11025 1)) [3, 5]))
    = (1, finished_session)"
    by (simp add: finished_session_def chromaprint_finish_def split: prod.splits)
  have m: "fingerprint finished_session \<noteq> []"
    by (simp add: finished_session_eq)
  show ?thesis
    using getters_state_discipline [where ctx = "chromaprint_new simple_Fingerprinter 1"
        and malloc = out_of_memory and F = simple_Fingerprinter and r = 1
        and ctx' = "(chromaprint_new simple_Fingerprinter 1)\<lparr>finished := True\<rparr>"]
      getters_state_discipline [where ctx = "chromaprint_new simple_Fingerprinter 1"
        and malloc = enough_memory and F = simple_Fingerprinter and r = 1
        and ctx' = "(chromaprint_new simple_Fingerprinter 1)\<lparr>finished := True\<rparr>"]
      getters_state_discipline [where malloc = out_of_memory and F = simple_Fingerprinter
        and r = 1 and ctx' = finished_session and ctx = "snd (chromaprint_feed simple_Fingerprinter
        (snd (chromaprint_start simple_Fingerprinter
          (chromaprint_new simple_Fingerprinter 1) 11025 1)) [3, 5])"]
      n f g m
    by (simp add: chromaprint_new_def e enough_memory_def out_of_memory_def)
qed

text \<open>
  The session \<open>finished_session\<close> is finished, by a \<open>chromaprint_finish\<close> that returned 1, and
  its fingerprint has two elements. With an allocator that is out of memory,
  \<open>chromaprint_get_raw_fingerprint\<close> returns 0 in this session: the test of the result of
  \<open>malloc\<close> is there for this.
\<close>

theorem getters_state_discipline_counterexample:
  "finished finished_session
   \<and> fingerprint finished_session = [3, 5]
   \<and> chromaprint_get_raw_fingerprint out_of_memory finished_session = (0, Some None, None)"
  unfolding finished_session_eq
  by (simp add: chromaprint_get_raw_fingerprint_def out_of_memory_def)

lemma chromaprint_start_fields:
  "algorithm (snd (chromaprint_start F ctx rate channels)) = algorithm ctx
   \<and> fingerprint (snd (chromaprint_start F ctx rate channels)) = fingerprint ctx
   \<and> \<not> finished (snd (chromaprint_start F ctx rate channels))"
  by (simp add: chromaprint_start_def Let_def split: prod.splits)

text \<open>
  C3 (amended). A \<open>chromaprint_start\<close> that fails leaves the algorithm id and the stored
  fingerprint of the session as they were, and leaves the session not finished: it clears
  the flag before it looks at its arguments. A \<open>chromaprint_set_option\<close> that fails leaves
  the flag, the algorithm id and the stored fingerprint as they were. A getter of the
  fingerprinter session that fails stores nothing. A \<open>chromaprint_matcher_set_fingerprint\<close> or
  \<open>chromaprint_matcher_set_raw_fingerprint\<close> that fails on its context or its index, and a
  \<open>chromaprint_matcher_run\<close> that fails on an empty slot, leave the matcher session, both
  slots included, as it was.
\<close>

theorem failing_calls_state:
  "(fst (chromaprint_start F ctx rate channels) = 0 \<longrightarrow>
      algorithm (snd (chromaprint_start F ctx rate channels)) = algorithm ctx
      \<and> fingerprint (snd (chromaprint_start F ctx rate channels)) = fingerprint ctx
      \<and> \<not> finished (snd (chromaprint_start F ctx rate channels)))
   \<and> (fst (chromaprint_set_option F ctx name v) = 0 \<longrightarrow>
        finished (snd (chromaprint_set_option F ctx name v)) = finished ctx
        \<and> algorithm (snd (chromaprint_set_option F ctx name v)) = algorithm ctx
        \<and> fingerprint (snd (chromaprint_set_option F ctx name v)) = fingerprint ctx)
   \<and> (chromaprint_get_fingerprint malloc ctx = Returns (0, out) \<longrightarrow> out = None)
   \<and> (\<not> finished ctx \<longrightarrow> chromaprint_get_fingerprint malloc ctx = Returns (0, None))
   \<and> (fst (chromaprint_get_fingerprint_hash ctx) = 0 \<longrightarrow>
        snd (chromaprint_get_fingerprint_hash ctx) = None)
   \<and> (\<not> finished ctx \<longrightarrow> chromaprint_get_raw_fingerprint malloc ctx = (0, None, None))
   \<and> (mctx = None \<or> idx < 0 \<or> 1 < idx \<longrightarrow>
        chromaprint_matcher_set_fingerprint indeterminate mctx idx encoded = (0, mctx)
        \<and> chromaprint_matcher_set_raw_fingerprint mctx idx fp n = (0, mctx))
   \<and> (mctx = None \<or> fst (m_fp (the mctx)) = [] \<or> snd (m_fp (the mctx)) = [] \<longrightarrow>
        chromaprint_matcher_run M mctx = (0, mctx))"
  by (auto simp: chromaprint_start_fields chromaprint_set_option_def chromaprint_get_fingerprint_def
      chromaprint_get_fingerprint_hash_def chromaprint_get_raw_fingerprint_def
      chromaprint_matcher_set_fingerprint_def chromaprint_matcher_set_raw_fingerprint_def
      chromaprint_matcher_run_def fp_at_def Let_def split: option.splits prod.splits if_splits)


theorem failing_calls_state_witness:
  "chromaprint_start simple_Fingerprinter finished_session 0 2
     = (0, \<lparr>finished = False, algorithm = 1,
            fingerprinter = \<lparr>sample_rate = 11025, num_channels = 1, samples = [3, 5]\<rparr>,
            fingerprint = [3, 5]\<rparr>)
   \<and> chromaprint_set_option simple_Fingerprinter finished_session ''unknown'' 1
     = (0, finished_session)
   \<and> chromaprint_get_fingerprint enough_memory (chromaprint_new simple_Fingerprinter 1)
     = Returns (0, None)
   \<and> chromaprint_get_fingerprint_hash (chromaprint_new simple_Fingerprinter 1) = (0, None)
   \<and> chromaprint_get_raw_fingerprint enough_memory (chromaprint_new simple_Fingerprinter 1)
     = (0, None, None)
   \<and> chromaprint_matcher_set_fingerprint 0 (Some matcher_session) 2 ''AQ=='' = (0, Some matcher_session)
   \<and> chromaprint_matcher_set_raw_fingerprint (Some matcher_session) 2 (array [5]) 1
     = (0, Some matcher_session)
   \<and> chromaprint_matcher_run stored_segments (Some matcher_session) = (0, Some matcher_session)"
proof -
  have s: "chromaprint_start simple_Fingerprinter finished_session 0 2
     = (0, \<lparr>finished = False, algorithm = 1,
            fingerprinter = \<lparr>sample_rate = 11025, num_channels = 1, samples = [3, 5]\<rparr>,
            fingerprint = [3, 5]\<rparr>)"
    unfolding finished_session_eq by (simp add: chromaprint_start_def simple_Fingerprinter_def)
  have o: "chromaprint_set_option simple_Fingerprinter finished_session ''unknown'' 1
     = (0, finished_session)"
    by (simp add: chromaprint_set_option_def simple_Fingerprinter_def)
  have g: "fst (chromaprint_get_fingerprint_hash (chromaprint_new simple_Fingerprinter 1)) = 0"
    "\<not> finished (chromaprint_new simple_Fingerprinter 1)"
    by (simp_all add: chromaprint_new_def chromaprint_get_fingerprint_hash_def)
  have e: "snd (m_fp (the (Some matcher_session))) = []"
    by (simp add: matcher_session_def)
  show ?thesis
    using failing_calls_state [where F = simple_Fingerprinter
        and ctx = "chromaprint_new simple_Fingerprinter 1" and malloc = enough_memory
        and out = None
        and mctx = "Some matcher_session" and idx = 2 and indeterminate = 0 and encoded = "''AQ==''"
        and fp = "array [5]" and n = 1 and M = stored_segments and rate = 0 and channels = 2
        and name = "''unknown''" and v = 1] g e s o
    by (simp add: prod_eq_iff)
qed

text \<open>
  On the finished session a \<open>chromaprint_start\<close> with the sample rate 0 returns 0, and the
  flag \<open>finished\<close> is cleared: \<open>chromaprint_get_fingerprint_hash\<close>, which returned the digest
  before the call, returns 0 after it. And in the matcher session for the algorithm id 1,
  whose slot 0 holds \<open>[7]\<close>, a \<open>chromaprint_matcher_set_fingerprint\<close> with a fingerprint
  of the algorithm id 2 returns 0 and slot 0 holds the new fingerprint.
\<close>

theorem failing_calls_state_counterexample:
  "finished finished_session
   \<and> fst (chromaprint_get_fingerprint_hash finished_session) = 1
   \<and> fst (chromaprint_start simple_Fingerprinter finished_session 0 2) = 0
   \<and> \<not> finished (snd (chromaprint_start simple_Fingerprinter finished_session 0 2))
   \<and> chromaprint_get_fingerprint_hash
        (snd (chromaprint_start simple_Fingerprinter finished_session 0 2)) = (0, None)
   \<and> m_fp matcher_session = ([7], [])
   \<and> chromaprint_matcher_set_fingerprint 0 (Some matcher_session) 0
        (Base64Encode (CompressFingerprint [5] 2))
     = (0, Some (matcher_session\<lparr>m_fp := ([5], [])\<rparr>))"
proof -
  have "finished finished_session
   \<and> fst (chromaprint_get_fingerprint_hash finished_session) = 1
   \<and> fst (chromaprint_start simple_Fingerprinter finished_session 0 2) = 0
   \<and> \<not> finished (snd (chromaprint_start simple_Fingerprinter finished_session 0 2))
   \<and> chromaprint_get_fingerprint_hash
        (snd (chromaprint_start simple_Fingerprinter finished_session 0 2)) = (0, None)"
    unfolding finished_session_eq
    by (simp add: chromaprint_start_def simple_Fingerprinter_def chromaprint_get_fingerprint_hash_def)
  moreover have "chromaprint_matcher_set_fingerprint 0 (Some matcher_session) 0
        (Base64Encode (CompressFingerprint [5] 2))
     = (0, Some (matcher_session\<lparr>m_fp := ([5], [])\<rparr>))"
    by (simp add: chromaprint_matcher_set_fingerprint_def Base64Decode_Encode
        DecompressFingerprint_Compress fp_upd_def matcher_session_def)
  ultimately show ?thesis
    by (simp add: matcher_session_def)
qed

subsection \<open>The digest of an array\<close>

lemma vector_array_take:
  "0 \<le> n \<Longrightarrow> n \<le> int (length xs) \<Longrightarrow> vector (array xs) n = take (nat n) xs"
  by (auto simp: list_eq_iff_nth_eq vector_def array_def)

text \<open>
  C10. \<open>chromaprint_hash_fingerprint\<close> returns 0 and stores nothing when \<open>fp\<close> is \<open>NULL\<close>,
  when \<open>size\<close> is negative and when \<open>hash\<close> is \<open>NULL\<close>. In every other case it returns 1 and
  stores the \<open>SimHash\<close> of the first \<open>size\<close> elements at \<open>fp\<close>.
\<close>

theorem chromaprint_hash_fingerprint_result:
  "(fp = None \<or> n < 0 \<or> \<not> hash \<longrightarrow> chromaprint_hash_fingerprint fp n hash = (0, None))
   \<and> (fp = Some a \<and> 0 \<le> n \<and> hash \<longrightarrow>
        chromaprint_hash_fingerprint fp n hash = (1, Some (SimHash (map a [0..<nat n]))))
   \<and> (0 \<le> n \<and> n \<le> int (length xs) \<longrightarrow>
        chromaprint_hash_fingerprint (Some (array xs)) n True
          = (1, Some (SimHash (take (nat n) xs))))"
  by (auto simp: chromaprint_hash_fingerprint_def vector_array_take) (simp add: vector_def)

theorem chromaprint_hash_fingerprint_result_witness:
  "chromaprint_hash_fingerprint None 3 True = (0, None)
   \<and> chromaprint_hash_fingerprint (Some (array [5, 7, 1, 8])) (- 1) True = (0, None)
   \<and> chromaprint_hash_fingerprint (Some (array [5, 7, 1, 8])) 3 False = (0, None)
   \<and> chromaprint_hash_fingerprint (Some (array [5, 7, 1, 8])) 3 True = (1, Some (SimHash [5, 7, 1]))
   \<and> chromaprint_hash_fingerprint (Some (array [5, 7, 1, 8])) 0 True = (1, Some 0)"
  using chromaprint_hash_fingerprint_result [where fp = None and n = 3 and hash = True
      and a = "array []" and xs = "[]"]
    chromaprint_hash_fingerprint_result [where fp = "Some (array [5, 7, 1, 8])" and n = "- 1"
      and hash = True and a = "array [5, 7, 1, 8]" and xs = "[5, 7, 1, 8]"]
    chromaprint_hash_fingerprint_result [where fp = "Some (array [5, 7, 1, 8])" and n = 3
      and hash = False and a = "array [5, 7, 1, 8]" and xs = "[5, 7, 1, 8]"]
    chromaprint_hash_fingerprint_result [where fp = "Some (array [5, 7, 1, 8])" and n = 3
      and hash = True and a = "array [5, 7, 1, 8]" and xs = "[5, 7, 1, 8]"]
    chromaprint_hash_fingerprint_result [where fp = "Some (array [5, 7, 1, 8])" and n = 0
      and hash = True and a = "array [5, 7, 1, 8]" and xs = "[5, 7, 1, 8]"]
  by (simp add: SimHash_Nil)

subsection \<open>The matcher session\<close>

text \<open>
  C5 (amended). In a matcher session, for each of the two slots: setting a fingerprint in
  compressed base64 form whose algorithm id, as the decompressor reports it, differs from
  the algorithm id of the session returns 0. A raw array carries no algorithm id:
  \<open>chromaprint_matcher_set_raw_fingerprint\<close> compares none, returns 1 and stores the array
  in the slot, whatever algorithm produced it.
\<close>

theorem matcher_algorithm_discipline:
  assumes "idx = 0 \<or> idx = 1"
    and "DecompressFingerprint (Base64Decode encoded) = (v, Some A)"
    and "A \<noteq> m_algorithm c"
  shows "fst (chromaprint_matcher_set_fingerprint indeterminate (Some c) idx encoded) = 0
    \<and> chromaprint_matcher_set_raw_fingerprint (Some c) idx (array S) (int (length S))
        = (1, Some (c\<lparr>m_fp := fp_upd idx S (m_fp c)\<rparr>))"
  using assms
  by (auto simp: chromaprint_matcher_set_fingerprint_def
      chromaprint_matcher_set_raw_fingerprint_def vector_array Let_def)

theorem matcher_algorithm_discipline_witness:
  "fst (chromaprint_matcher_set_fingerprint 0 (Some matcher_session) 1
          (Base64Encode (CompressFingerprint [5] 2))) = 0
   \<and> chromaprint_matcher_set_raw_fingerprint (Some matcher_session) 1 (array [5]) 1
       = (1, Some (matcher_session\<lparr>m_fp := ([7], [5])\<rparr>))"
proof -
  have d: "DecompressFingerprint (Base64Decode (Base64Encode (CompressFingerprint [5] 2)))
      = ([5], Some 2)"
    by (simp add: Base64Decode_Encode DecompressFingerprint_Compress)
  show ?thesis
    using matcher_algorithm_discipline [where idx = 1 and A = 2 and c = matcher_session
        and S = "[5]" and indeterminate = 0 and v = "[5]"
        and encoded = "Base64Encode (CompressFingerprint [5] 2)", OF _ d]
    by (simp add: matcher_session_def fp_upd_def)
qed

text \<open>
  The session \<open>matcher_session\<close> is for the algorithm id 1. The fingerprint \<open>[5]\<close> of the
  algorithm id 2 is refused in its compressed form and accepted as a raw array, which
  replaces the fingerprint in slot 0.
\<close>

theorem matcher_algorithm_discipline_counterexample:
  "m_algorithm matcher_session = 1
   \<and> fst (chromaprint_matcher_set_fingerprint 0 (Some matcher_session) 0
            (Base64Encode (CompressFingerprint [5] 2))) = 0
   \<and> chromaprint_matcher_set_raw_fingerprint (Some matcher_session) 0 (array [5]) 1
       = (1, Some \<lparr>m_algorithm = 1, matcher = [], m_fp = ([5], [])\<rparr>)"
proof -
  have "vector (array [5 :: uint32_t]) 1 = [5]"
    using vector_array [of "[5 :: uint32_t]"] by simp
  then show ?thesis
    by (simp add: chromaprint_matcher_set_fingerprint_def
        chromaprint_matcher_set_raw_fingerprint_def Base64Decode_Encode
        DecompressFingerprint_Compress matcher_session_def fp_upd_def)
qed

text \<open>
  C6. In a matcher session in which one of the two stored fingerprints is empty,
  \<open>chromaprint_matcher_run\<close> returns 0 before it calls \<open>Match\<close>: the run produces no segment,
  the session with its matcher is as it was, and the number of segments that
  \<open>chromaprint_matcher_get_num_segments\<close> reports is the one before the call (the segments of
  an earlier run, if the session had one, are not the product of this run). A new session is
  such a session.
\<close>

theorem matcher_run_empty:
  assumes "fst (m_fp c) = [] \<or> snd (m_fp c) = []"
  shows "chromaprint_matcher_run M (Some c) = (0, Some c)
    \<and> chromaprint_matcher_get_num_segments M (snd (chromaprint_matcher_run M (Some c))) True
        = chromaprint_matcher_get_num_segments M (Some c) True
    \<and> chromaprint_matcher_run M (chromaprint_matcher_new M a) = (0, chromaprint_matcher_new M a)"
  using assms by (auto simp: chromaprint_matcher_run_def chromaprint_matcher_new_def fp_at_def)

theorem matcher_run_empty_witness:
  "chromaprint_matcher_run stored_segments (Some matcher_session) = (0, Some matcher_session)
   \<and> chromaprint_matcher_get_num_segments stored_segments
        (snd (chromaprint_matcher_run stored_segments (Some matcher_session))) True = (1, Some 0)
   \<and> chromaprint_matcher_run stored_segments (Some (matcher_session\<lparr>m_fp := ([], [7])\<rparr>))
       = (0, Some (matcher_session\<lparr>m_fp := ([], [7])\<rparr>))"
  using matcher_run_empty [where c = matcher_session and M = stored_segments and a = 1]
    matcher_run_empty [where c = "matcher_session\<lparr>m_fp := ([], [7])\<rparr>" and M = stored_segments
      and a = 1]
  by (simp add: matcher_session_def chromaprint_matcher_get_num_segments_def stored_segments_def)

subsection \<open>Arithmetic on double\<close>

lemma binade_from_eq:
  "2 powi e \<le> x \<Longrightarrow> x < 2 powi (e + 1) \<Longrightarrow> e0 \<le> e \<Longrightarrow> nat (e - e0) \<le> n
     \<Longrightarrow> binade_from n e0 x = e"
proof (induction n arbitrary: e0)
  case 0
  then show ?case by simp
next
  case (Suc n)
  show ?case
  proof (cases "2 powi (e0 + 1) \<le> x")
    case True
    with Suc.prems(2) have "(2::real) powi (e0 + 1) < 2 powi (e + 1)"
      by simp
    then have "e0 + 1 < e + 1"
      using power_int_increasing [of "e + 1" "e0 + 1" "2::real"] by (cases "e0 + 1 < e + 1") auto
    then have "binade_from n (e0 + 1) x = e"
      using Suc.prems by (intro Suc.IH) auto
    with True show ?thesis by simp
  next
    case False
    with Suc.prems(1) have "(2::real) powi e < 2 powi (e0 + 1)"
      by simp
    then have "e < e0 + 1"
      using power_int_increasing [of "e0 + 1" e "2::real"] by (cases "e < e0 + 1") auto
    with Suc.prems(3) False show ?thesis by simp
  qed
qed

lemma binade_eq:
  "2 powi e \<le> \<bar>x\<bar> \<Longrightarrow> \<bar>x\<bar> < 2 powi (e + 1) \<Longrightarrow> - 1022 \<le> e \<Longrightarrow> e \<le> 1023 \<Longrightarrow> binade x = e"
  unfolding binade_def by (rule binade_from_eq) auto

lemma double_round_binade:
  "2 powi e \<le> \<bar>x\<bar> \<Longrightarrow> \<bar>x\<bar> < 2 powi (e + 1) \<Longrightarrow> - 1022 \<le> e \<Longrightarrow> e \<le> 1023
     \<Longrightarrow> double_round x = of_int (rne (x / 2 powi (e - 52))) * 2 powi (e - 52)"
  by (simp add: double_round_def binade_eq)

lemma double_round_0: "double_round 0 = 0"
  by (simp add: double_round_def rne_def)

lemma binade_from_le:
  "x < 2 powi (e + 1) \<Longrightarrow> e0 \<le> e \<Longrightarrow> binade_from n e0 x \<le> e"
proof (induction n arbitrary: e0)
  case 0
  then show ?case by simp
next
  case (Suc n)
  show ?case
  proof (cases "2 powi (e0 + 1) \<le> x")
    case True
    with Suc.prems(1) have "(2::real) powi (e0 + 1) < 2 powi (e + 1)"
      by simp
    then have "e0 + 1 < e + 1"
      using power_int_increasing [of "e + 1" "e0 + 1" "2::real"] by (cases "e0 + 1 < e + 1") auto
    then have "binade_from n (e0 + 1) x \<le> e"
      using Suc.prems by (intro Suc.IH) auto
    with True show ?thesis by simp
  next
    case False
    with Suc.prems(2) show ?thesis by simp
  qed
qed

lemma binade_le: "\<bar>x\<bar> < 2 powi (e + 1) \<Longrightarrow> - 1022 \<le> e \<Longrightarrow> binade x \<le> e"
  unfolding binade_def by (rule binade_from_le)

lemma rne_error: "\<bar>of_int (rne y) - y\<bar> \<le> 1 / 2"
  using floor_correct [of y] by (auto simp: rne_def Let_def)

text \<open>The rounding error is at most half the spacing of the binade.\<close>

lemma double_round_error:
  assumes "\<bar>x\<bar> < 2 powi (e + 1)" and "- 1022 \<le> e"
  shows "\<bar>double_round x - x\<bar> \<le> 2 powi (e - 53)"
proof -
  define q :: real where "q = 2 powi (binade x - 52)"
  have q: "0 < q"
    by (simp add: q_def)
  have "binade x - 52 \<le> e - 52"
    using binade_le [OF assms] by simp
  then have le: "q \<le> 2 powi (e - 52)"
    unfolding q_def by (rule power_int_increasing) simp
  have "(2::real) powi (e - 52) = 2 powi (e - 53) * 2"
    using power_int_add_1 [of "2::real" "e - 53"] by simp
  with le have half: "q / 2 \<le> 2 powi (e - 53)"
    by simp
  have "double_round x - x = q * (of_int (rne (x / q)) - x / q)"
    using q by (simp add: double_round_def q_def [symmetric] algebra_simps)
  then have "\<bar>double_round x - x\<bar> = q * \<bar>of_int (rne (x / q)) - x / q\<bar>"
    using q by (simp add: abs_mult)
  also have "\<dots> \<le> q * (1 / 2)"
    using q rne_error [of "x / q"] by (intro mult_left_mono) auto
  finally show ?thesis
    using half by simp
qed

text \<open>
  For a raw score from 0 to 32 the value on \<open>double\<close> is within \<open>2^-40\<close> of the exact value
  of the formula's argument.
\<close>

lemma double_score_error:
  assumes "0 \<le> s" and "s \<le> 32"
  shows "\<bar>double_score s - 100 * (1 - s / 32)\<bar> \<le> 1 / 2 ^ 40"
proof -
  define t where "t = s / 32"
  define a where "a = double_round t"
  define b where "b = double_round (1 - a)"
  define c where "c = double_round (100 * b)"
  define u :: real where "u = 2 powi (0 - 53)"
  define v :: real where "v = 2 powi (6 - 53)"
  have u: "u = 1 / 9007199254740992" and v: "v = 1 / 140737488355328"
    by (simp_all add: u_def v_def)
  have t: "0 \<le> t" "t \<le> 1"
    using assms by (simp_all add: t_def)
  then have "\<bar>t\<bar> < 2 powi (0 + 1)"
    by simp
  then have "\<bar>a - t\<bar> \<le> u"
    unfolding a_def u_def by (rule double_round_error) simp
  then have a: "a - t \<le> u" "t - a \<le> u"
    by linarith+
  have "\<bar>1 - a\<bar> < 2"
    using a t unfolding u by linarith
  then have "\<bar>1 - a\<bar> < 2 powi (0 + 1)"
    by simp
  then have "\<bar>b - (1 - a)\<bar> \<le> u"
    unfolding b_def u_def by (rule double_round_error) simp
  then have b: "b - (1 - a) \<le> u" "(1 - a) - b \<le> u"
    by linarith+
  have "\<bar>100 * b\<bar> < 128"
    using a b t unfolding u by linarith
  then have "\<bar>100 * b\<bar> < 2 powi (6 + 1)"
    by simp
  then have "\<bar>c - 100 * b\<bar> \<le> v"
    unfolding c_def v_def by (rule double_round_error) simp
  then have c: "c - 100 * b \<le> v" "100 * b - c \<le> v"
    by linarith+
  have "c - 100 * (1 - t) = (c - 100 * b) + 100 * (b - (1 - a)) + 100 * (t - a)"
    and "100 * (1 - t) - c = (100 * b - c) + 100 * ((1 - a) - b) + 100 * (a - t)"
    by (simp_all add: algebra_simps)
  moreover have "(c - 100 * b) + 100 * (b - (1 - a)) + 100 * (t - a) \<le> v + 100 * u + 100 * u"
    and "(100 * b - c) + 100 * ((1 - a) - b) + 100 * (a - t) \<le> v + 100 * u + 100 * u"
    using a b c by (intro add_mono mult_left_mono; simp)+
  moreover have "v + 100 * u + 100 * u \<le> 1 / 1099511627776"
    unfolding u v by simp
  ultimately have "\<bar>c - 100 * (1 - t)\<bar> \<le> 1 / 1099511627776"
    unfolding abs_le_iff by (simp only: minus_diff_eq) linarith
  then show ?thesis
    by (simp add: double_score_def double_mul_def double_sub_def double_div_def
        c_def b_def a_def t_def)
qed

subsection \<open>The normalised score\<close>

lemma clamp_max_min: "clamp 0 100 v = max 0 (min 100 v)"
  by (simp add: clamp_def max_def min_def)

lemma c_round_clamp: "max 0 (min 100 (c_round x)) = clamp 0 100 (round x)"
proof (cases "0 \<le> x")
  case True
  then have "c_round x = round x"
    by (simp add: c_round_def round_def)
  then show ?thesis
    by (simp add: clamp_max_min)
next
  case False
  then have "\<lceil>x - 1 / 2\<rceil> \<le> 0" and "\<lfloor>x + 1 / 2\<rfloor> \<le> 0"
    by (simp_all add: ceiling_le_iff floor_le_iff)
  then have "c_round x \<le> 0" and "round x \<le> 0"
    using False by (simp_all add: c_round_def round_def)
  then show ?thesis
    by (simp add: clamp_max_min)
qed

lemma clamp_bounds: "0 \<le> clamp 0 100 v \<and> clamp 0 100 v \<le> 100"
  by (simp add: clamp_def)

lemma clamp_close: "\<bar>u - v\<bar> \<le> 1 \<Longrightarrow> \<bar>clamp 0 100 u - clamp 0 100 v\<bar> \<le> 1"
  by (auto simp: clamp_def)

lemma round_close:
  fixes x y :: real
  assumes "\<bar>x - y\<bar> \<le> 1"
  shows "\<bar>round x - round y\<bar> \<le> 1"
proof -
  define m where "m = \<lfloor>x + 1 / 2\<rfloor>"
  define n where "n = \<lfloor>y + 1 / 2\<rfloor>"
  have "of_int m \<le> x + 1 / 2" and "x + 1 / 2 < of_int m + 1"
    and "of_int n \<le> y + 1 / 2" and "y + 1 / 2 < of_int n + 1"
    unfolding m_def n_def by linarith+
  with assms have "(of_int m :: real) < of_int (n + 2)" and "(of_int n :: real) < of_int (m + 2)"
    by simp_all
  then have "m < n + 2" and "n < m + 2"
    by (simp_all only: of_int_less_iff)
  then show ?thesis
    unfolding round_def m_def [symmetric] n_def [symmetric] by linarith
qed

lemma raw_score_fits:
  assumes "0 \<le> s" and "s \<le> 32"
  shows "fits_int (c_round (double_score s))"
proof -
  have "\<bar>double_score s - 100 * (1 - s / 32)\<bar> \<le> 1"
    using double_score_error [OF assms] by (simp add: field_simps)
  then have "- 1 \<le> double_score s" and "double_score s \<le> 101"
    using assms by (simp_all add: abs_le_iff)
  then have "- 2 \<le> c_round (double_score s)" and "c_round (double_score s) \<le> 102"
    by (auto simp: c_round_def le_floor_iff floor_le_iff le_ceiling_iff ceiling_le_iff)
  then show ?thesis
    by (simp add: fits_int_def)
qed

text \<open>
  C7 (amended). For every segment index in range, \<open>chromaprint_matcher_get_segment_score\<close>
  returns 1 and stores \<open>clamp(0, 100, round(x))\<close>, where \<open>x\<close> is
  \<open>100 \<times> (1 - rawScore / 32)\<close> computed on \<open>double\<close>, each operation rounded to the nearest
  \<open>double\<close>, and \<open>rawScore\<close> is the raw score of the segment; so the score it stores is from
  0 to 100. For a raw score from 0 to 32 it is the value of the exact formula or differs
  from it by one. The statement is for the calls in which the conversion of the rounded
  value to \<open>int\<close> is defined, which are all those with a raw score from 0 to 32.
\<close>

theorem segment_score_formula:
  assumes "0 \<le> idx" and "idx < int (length (segments M (matcher c)))"
    and "rawScore = score (segments M (matcher c) ! nat idx)"
    and "fits_int (c_round (double_score rawScore))"
  shows "chromaprint_matcher_get_segment_score M (Some c) idx
      = (1, Some (clamp 0 100 (round (double_score rawScore))))
    \<and> 0 \<le> clamp 0 100 (round (double_score rawScore))
    \<and> clamp 0 100 (round (double_score rawScore)) \<le> 100
    \<and> (0 \<le> rawScore \<and> rawScore \<le> 32 \<longrightarrow>
         fits_int (c_round (double_score rawScore))
         \<and> \<bar>clamp 0 100 (round (double_score rawScore))
              - clamp 0 100 (round (100 * (1 - rawScore / 32)))\<bar> \<le> 1)"
proof -
  have "\<bar>clamp 0 100 (round (double_score rawScore))
          - clamp 0 100 (round (100 * (1 - rawScore / 32)))\<bar> \<le> 1"
    if "0 \<le> rawScore" and "rawScore \<le> 32"
  proof -
    have "\<bar>double_score rawScore - 100 * (1 - rawScore / 32)\<bar> \<le> 1"
      using double_score_error [OF that] by (simp add: field_simps)
    then show ?thesis
      by (intro clamp_close round_close)
  qed
  then show ?thesis
    using assms
    by (simp add: chromaprint_matcher_get_segment_score_def Let_def c_round_clamp clamp_bounds
        raw_score_fits double_score_def [symmetric])
qed

text \<open>
  The three sample scores are values of \<open>double\<close>. At \<open>double_0_8\<close> the value on \<open>double\<close>
  is 97.5 and the getter stores 98; at \<open>double_12_up\<close> it is 62.5 and the getter stores 63.
\<close>

lemma is_double_samples: "is_double double_0_8 \<and> is_double double_13_6 \<and> is_double double_12_up"
proof -
  have "double_round double_0_8 = double_0_8"
    by (subst double_round_binade [where e = "- 1"]) (simp_all add: rne_def double_0_8_def)
  moreover have "double_round double_13_6 = double_13_6"
    by (subst double_round_binade [where e = 3]) (simp_all add: rne_def double_13_6_def)
  moreover have "double_round double_12_up = double_12_up"
    by (subst double_round_binade [where e = 3]) (simp_all add: rne_def double_12_up_def)
  ultimately show ?thesis
    by (simp add: is_double_def) (simp add: double_0_8_def double_13_6_def double_12_up_def)
qed

lemma double_score_0: "double_score 0 = 100"
proof -
  have 1: "double_div 0 32 = 0"
    by (simp add: double_div_def double_round_0)
  have 2: "double_sub 1 0 = 1"
    unfolding double_sub_def
    by (subst double_round_binade [where e = 0]) (simp_all add: rne_def)
  have 3: "double_mul 100 1 = 100"
    unfolding double_mul_def
    by (subst double_round_binade [where e = 6]) (simp_all add: rne_def)
  show ?thesis
    unfolding double_score_def 1 2 3 ..
qed

lemma double_score_0_8: "double_score double_0_8 = 195 / 2"
proof -
  have 1: "double_div double_0_8 32 = 7205759403792794 / 2 ^ 58"
    unfolding double_div_def
    by (subst double_round_binade [where e = "- 6"]) (simp_all add: rne_def double_0_8_def)
  have 2: "double_sub 1 (7205759403792794 / 2 ^ 58) = 8782019273372467 / 2 ^ 53"
    unfolding double_sub_def
    by (subst double_round_binade [where e = "- 1"]) (simp_all add: rne_def)
  have 3: "double_mul 100 (8782019273372467 / 2 ^ 53) = 195 / 2"
    unfolding double_mul_def
    by (subst double_round_binade [where e = 6]) (simp_all add: rne_def)
  show ?thesis
    unfolding double_score_def 1 2 3 ..
qed

lemma double_score_12_up: "double_score double_12_up = 125 / 2"
proof -
  have 1: "double_div double_12_up 32 = 6755399441055745 / 2 ^ 54"
    unfolding double_div_def
    by (subst double_round_binade [where e = "- 2"]) (simp_all add: rne_def double_12_up_def)
  have 2: "double_sub 1 (6755399441055745 / 2 ^ 54) = 5 / 8"
    unfolding double_sub_def
    by (subst double_round_binade [where e = "- 1"]) (simp_all add: rne_def)
  have 3: "double_mul 100 (5 / 8) = 125 / 2"
    unfolding double_mul_def
    by (subst double_round_binade [where e = 5]) (simp_all add: rne_def)
  show ?thesis
    unfolding double_score_def 1 2 3 ..
qed

lemma scored_session_segments:
  "segments stored_segments (matcher scored_session)
     = [\<lparr>pos1 = 0, pos2 = 4, duration = 10, score = 0\<rparr>,
        \<lparr>pos1 = 20, pos2 = 24, duration = 8, score = double_0_8\<rparr>,
        \<lparr>pos1 = 40, pos2 = 44, duration = 9, score = double_12_up\<rparr>,
        \<lparr>pos1 = 60, pos2 = 64, duration = 7, score = double_13_6\<rparr>]"
  by (simp add: scored_session_def stored_segments_def)

theorem segment_score_formula_witness:
  "chromaprint_matcher_get_segment_score stored_segments (Some scored_session) 0 = (1, Some 100)
   \<and> chromaprint_matcher_get_segment_score stored_segments (Some scored_session) 1 = (1, Some 98)
   \<and> chromaprint_matcher_get_segment_score stored_segments (Some scored_session) 2 = (1, Some 63)"
  using segment_score_formula [where idx = 0 and M = stored_segments and c = scored_session
      and rawScore = 0]
    segment_score_formula [where idx = 1 and M = stored_segments and c = scored_session
      and rawScore = double_0_8]
    segment_score_formula [where idx = 2 and M = stored_segments and c = scored_session
      and rawScore = double_12_up]
  by (simp add: scored_session_segments fits_int_def clamp_def c_round_def round_def
      double_score_0 double_score_0_8 double_score_12_up)

text \<open>
  The raw score \<open>double_13_6\<close> is a \<open>double\<close> from 0 to 32. The subtraction rounds a tie to
  the even neighbour below, the product is below 57.5, and the getter stores 57; the exact
  formula gives 58.
\<close>

lemma double_score_13_6: "double_score double_13_6 = 8092405580431359 / 2 ^ 47"
proof -
  have 1: "double_div double_13_6 32 = 7656119366529843 / 2 ^ 54"
    unfolding double_div_def
    by (subst double_round_binade [where e = "- 2"]) (simp_all add: rne_def double_13_6_def)
  have 2: "double_sub 1 (7656119366529843 / 2 ^ 54) = 5179139571476070 / 2 ^ 53"
    unfolding double_sub_def
    by (subst double_round_binade [where e = "- 1"]) (simp_all add: rne_def)
  have 3: "double_mul 100 (5179139571476070 / 2 ^ 53) = 8092405580431359 / 2 ^ 47"
    unfolding double_mul_def
    by (subst double_round_binade [where e = 5]) (simp_all add: rne_def)
  show ?thesis
    unfolding double_score_def 1 2 3 ..
qed

theorem segment_score_formula_counterexample:
  "is_double double_13_6 \<and> 0 \<le> double_13_6 \<and> double_13_6 \<le> 32
   \<and> chromaprint_matcher_get_segment_score stored_segments (Some scored_session) 3 = (1, Some 57)
   \<and> clamp 0 100 (round (100 * (1 - double_13_6 / 32))) = 58"
proof -
  have "c_round (double_score double_13_6) = 57"
    unfolding double_score_13_6 by (simp add: c_round_def)
  then have "chromaprint_matcher_get_segment_score stored_segments (Some scored_session) 3
      = (1, Some 57)"
    by (simp add: chromaprint_matcher_get_segment_score_def scored_session_segments
        double_score_def [symmetric])
  moreover have "round (100 * (1 - double_13_6 / 32)) = 58"
    by (simp add: round_def double_13_6_def)
  moreover have "0 \<le> double_13_6 \<and> double_13_6 \<le> 32"
    by (simp add: double_13_6_def)
  ultimately show ?thesis
    using is_double_samples by (simp add: clamp_def)
qed

end
